theory Spec2Isabelle
  imports Complex_Main "HOL-Library.Sublist"
begin

section \<open>JavaScript values as the star map uses them\<close>

text \<open>
  The page component of the star map (\<open>Home\<close>, \<open>StarField\<close>, \<open>StarSidebar\<close>) works on the
  rows that the CSV parser delivers: objects whose property values are strings, or are
  missing. Numbers appear as results of \<open>parseFloat\<close> and of the colour arithmetic.

  A JavaScript number is an IEEE double: \<open>NaN\<close>, \<open>Infinity\<close>, \<open>-Infinity\<close>, or a finite
  double, which is kept as the real number it stands for. Every operation that rounds
  in JavaScript rounds here: reading a decimal literal or a string, \<open>-\<close> and \<open>*\<close>, and the
  store into a \<open>Float32Array\<close>. The sign of zero is not modelled.
\<close>

datatype jsnum = NaN | PosInf | NegInf | Fin real

datatype jsval = Undefined | Num jsnum | Str string

text \<open>
  A row is an object with string keys; reading a missing property gives \<open>undefined\<close>
  (\<open>field r k\<close> stands for \<open>r.k\<close>).
\<close>

type_synonym row = "string \<rightharpoonup> jsval"

definition field :: "row \<Rightarrow> string \<Rightarrow> jsval" where
  "field r k = (case r k of None \<Rightarrow> Undefined | Some v \<Rightarrow> v)"

text \<open>\<open>ToBoolean\<close>: what \<open>if (v)\<close>, \<open>v && ...\<close> and \<open>v || ...\<close> test.\<close>

fun truthy :: "jsval \<Rightarrow> bool" where
  "truthy Undefined = False"
| "truthy (Num NaN) = False"
| "truthy (Num PosInf) = True"
| "truthy (Num NegInf) = True"
| "truthy (Num (Fin r)) = (r \<noteq> 0)"
| "truthy (Str s) = (s \<noteq> [])"

fun isNaN :: "jsnum \<Rightarrow> bool" where
  "isNaN NaN = True"
| "isNaN _ = False"

subsection \<open>Rounding to a binary floating-point format\<close>

text \<open>
  Round to nearest, ties to even (IEEE 754), for a format with \<open>p\<close> bits of precision,
  least quantum \<open>2 ^ qmin\<close> and finite values below \<open>2 ^ emax\<close>: the real \<open>x\<close> is
  rounded to a multiple of the quantum of its binade, and a result that reaches
  \<open>2 ^ emax\<close> is an infinity.
\<close>

definition pow2 :: "int \<Rightarrow> real" where
  "pow2 e = (if 0 \<le> e then 2 ^ nat e else 1 / 2 ^ nat (- e))"

definition round_half_even :: "real \<Rightarrow> int" where
  "round_half_even t =
     (let f = \<lfloor>t\<rfloor>; d = t - of_int f
      in if d < 1 / 2 then f else if 1 / 2 < d then f + 1 else if even f then f else f + 1)"

text \<open>The binade of a positive real: the \<open>e\<close> with \<open>2 ^ e \<le> x < 2 ^ (e + 1)\<close>.\<close>

function ilog2 :: "real \<Rightarrow> int" where
  "ilog2 x = (if 2 \<le> x then ilog2 (x / 2) + 1
              else if 0 < x \<and> x < 1 then ilog2 (x * 2) - 1
              else 0)"
  by pat_completeness auto
termination
proof (relation "measure (\<lambda>x. if 2 \<le> x then nat \<lceil>x\<rceil>
                               else if 0 < x \<and> x < 1 then nat \<lceil>1 / x\<rceil> else 0)")
  show "wf (measure (\<lambda>x. if 2 \<le> x then nat \<lceil>x\<rceil>
                           else if 0 < x \<and> x < 1 then nat \<lceil>1 / x\<rceil> else 0))"
    by simp
next
  fix x :: real
  assume a: "2 \<le> x"
  have "\<lceil>x / 2\<rceil> \<le> \<lceil>x - 1\<rceil>" using a by (intro ceiling_mono) simp
  then have "\<lceil>x / 2\<rceil> < \<lceil>x\<rceil>" by simp
  moreover have "0 < \<lceil>x\<rceil>" using a by simp
  ultimately show "(x / 2, x) \<in> measure (\<lambda>x. if 2 \<le> x then nat \<lceil>x\<rceil>
                               else if 0 < x \<and> x < 1 then nat \<lceil>1 / x\<rceil> else 0)"
    using a by auto
next
  fix x :: real
  assume a: "\<not> 2 \<le> x" "0 < x \<and> x < 1"
  then have y: "1 < 1 / x" by simp
  then have pos: "0 < \<lceil>1 / x\<rceil>" by (smt (verit) ceiling_le_zero)
  show "(x * 2, x) \<in> measure (\<lambda>x. if 2 \<le> x then nat \<lceil>x\<rceil>
                               else if 0 < x \<and> x < 1 then nat \<lceil>1 / x\<rceil> else 0)"
  proof (cases "x * 2 < 1")
    case True
    then have "2 \<le> 1 / x" using a by (simp add: field_simps)
    then have "\<lceil>1 / (x * 2)\<rceil> \<le> \<lceil>1 / x - 1\<rceil>" by (intro ceiling_mono) (simp add: field_simps)
    then have "\<lceil>1 / (x * 2)\<rceil> < \<lceil>1 / x\<rceil>" by simp
    with True a pos show ?thesis by auto
  next
    case False
    with a pos show ?thesis by auto
  qed
qed

declare ilog2.simps [simp del]

definition round_float :: "nat \<Rightarrow> int \<Rightarrow> int \<Rightarrow> real \<Rightarrow> jsnum" where
  "round_float p qmin emax x =
     (if x = 0 then Fin 0
      else
        let e = max qmin (ilog2 \<bar>x\<bar> - (int p - 1));
            m = round_half_even (x / pow2 e);
            r = of_int m * pow2 e
        in if pow2 emax \<le> \<bar>r\<bar> then (if 0 < x then PosInf else NegInf) else Fin r)"

text \<open>
  The double nearest to a real (binary64: 53 bits, least quantum \<open>2 ^ -1074\<close>), which is
  also what a decimal literal of the source denotes; and the conversion of a number to
  float32 (binary32: 24 bits, least quantum \<open>2 ^ -149\<close>), as \<open>Math.fround\<close> and a store
  into a \<open>Float32Array\<close> do it.
\<close>

definition fl64 :: "real \<Rightarrow> jsnum" where
  "fl64 = round_float 53 (- 1074) 1024"


subsection \<open>Arithmetic on numbers\<close>

fun Math_min :: "jsnum \<Rightarrow> jsnum \<Rightarrow> jsnum" where
  "Math_min NaN _ = NaN"
| "Math_min _ NaN = NaN"
| "Math_min NegInf _ = NegInf"
| "Math_min _ NegInf = NegInf"
| "Math_min PosInf b = b"
| "Math_min a PosInf = a"
| "Math_min (Fin a) (Fin b) = Fin (min a b)"

fun Math_max :: "jsnum \<Rightarrow> jsnum \<Rightarrow> jsnum" where
  "Math_max NaN _ = NaN"
| "Math_max _ NaN = NaN"
| "Math_max PosInf _ = PosInf"
| "Math_max _ PosInf = PosInf"
| "Math_max NegInf b = b"
| "Math_max a NegInf = a"
| "Math_max (Fin a) (Fin b) = Fin (max a b)"

fun Math_abs :: "jsnum \<Rightarrow> jsnum" where
  "Math_abs NaN = NaN"
| "Math_abs PosInf = PosInf"
| "Math_abs NegInf = PosInf"
| "Math_abs (Fin a) = Fin \<bar>a\<bar>"

fun js_neg :: "jsnum \<Rightarrow> jsnum" where
  "js_neg NaN = NaN"
| "js_neg PosInf = NegInf"
| "js_neg NegInf = PosInf"
| "js_neg (Fin a) = Fin (- a)"

text \<open>\<open>a - b\<close>: the exact difference of two finite doubles, rounded to a double.\<close>

fun js_sub :: "jsnum \<Rightarrow> jsnum \<Rightarrow> jsnum" where
  "js_sub NaN _ = NaN"
| "js_sub _ NaN = NaN"
| "js_sub PosInf PosInf = NaN"
| "js_sub NegInf NegInf = NaN"
| "js_sub PosInf _ = PosInf"
| "js_sub NegInf _ = NegInf"
| "js_sub (Fin a) PosInf = NegInf"
| "js_sub (Fin a) NegInf = PosInf"
| "js_sub (Fin a) (Fin b) = fl64 (a - b)"

text \<open>\<open>a * b\<close>\<close>

fun js_mul :: "jsnum \<Rightarrow> jsnum \<Rightarrow> jsnum" where
  "js_mul NaN _ = NaN"
| "js_mul _ NaN = NaN"
| "js_mul (Fin a) (Fin b) = fl64 (a * b)"
| "js_mul (Fin a) PosInf = (if a = 0 then NaN else if 0 < a then PosInf else NegInf)"
| "js_mul (Fin a) NegInf = (if a = 0 then NaN else if 0 < a then NegInf else PosInf)"
| "js_mul PosInf (Fin b) = (if b = 0 then NaN else if 0 < b then PosInf else NegInf)"
| "js_mul NegInf (Fin b) = (if b = 0 then NaN else if 0 < b then NegInf else PosInf)"
| "js_mul PosInf PosInf = PosInf"
| "js_mul PosInf NegInf = NegInf"
| "js_mul NegInf PosInf = NegInf"
| "js_mul NegInf NegInf = PosInf"

text \<open>\<open>n || 0\<close> on a number: the number itself when it is truthy, else \<open>0\<close>.\<close>

definition or_zero :: "jsnum \<Rightarrow> jsnum" where
  "or_zero n = (if truthy (Num n) then n else Fin 0)"

subsection \<open>\<open>parseFloat\<close>\<close>

text \<open>
  \<open>parseFloat\<close> is a built-in; it is modelled after ECMA-262 (sec. parseFloat and the
  grammar \<open>StrDecimalLiteral\<close>): leading white space is dropped, then the longest prefix
  that is a signed decimal literal (or \<open>Infinity\<close>) is read, and the result is \<open>NaN\<close> when
  there is no such prefix. The value read is the double nearest to the decimal number.
  Characters stand for code units below 256.
\<close>

definition isStrWhiteSpaceChar :: "char \<Rightarrow> bool" where
  "isStrWhiteSpaceChar c = ((of_char c :: nat) \<in> {9, 10, 11, 12, 13, 32, 160})"

definition isDecimalDigit :: "char \<Rightarrow> bool" where
  "isDecimalDigit c = (48 \<le> (of_char c :: nat) \<and> (of_char c :: nat) \<le> 57)"

definition digitValue :: "char \<Rightarrow> nat" where
  "digitValue c = of_char c - 48"

definition digitsValue :: "string \<Rightarrow> nat" where
  "digitsValue ds = foldl (\<lambda>a d. 10 * a + digitValue d) 0 ds"

text \<open>The value of an \<open>ExponentPart\<close> at the head of the string; \<open>0\<close> when there is none.\<close>

definition exponentPart :: "string \<Rightarrow> int" where
  "exponentPart s =
     (case s of
        [] \<Rightarrow> 0
      | e # r \<Rightarrow>
          if e = CHR ''e'' \<or> e = CHR ''E'' then
            (case r of
               [] \<Rightarrow> 0
             | sg # r' \<Rightarrow>
                 if sg = CHR ''-'' then - int (digitsValue (takeWhile isDecimalDigit r'))
                 else if sg = CHR ''+'' then int (digitsValue (takeWhile isDecimalDigit r'))
                 else int (digitsValue (takeWhile isDecimalDigit r)))
          else 0)"

definition scale10 :: "real \<Rightarrow> int \<Rightarrow> real" where
  "scale10 m e = (if 0 \<le> e then m * 10 ^ nat e else m / 10 ^ nat (- e))"

definition strUnsignedDecimalLiteral :: "string \<Rightarrow> jsnum" where
  "strUnsignedDecimalLiteral s =
     (if take 8 s = ''Infinity'' then PosInf
      else
        let ip = takeWhile isDecimalDigit s;
            r1 = dropWhile isDecimalDigit s;
            hasDot = (case r1 of [] \<Rightarrow> False | c # _ \<Rightarrow> c = CHR ''.'');
            fp = (if hasDot then takeWhile isDecimalDigit (tl r1) else []);
            r2 = (if hasDot then dropWhile isDecimalDigit (tl r1) else r1)
        in if ip = [] \<and> fp = [] then NaN
           else fl64 (scale10 (real (digitsValue ip) + real (digitsValue fp) / 10 ^ length fp)
                        (exponentPart r2)))"

definition parseFloat_string :: "string \<Rightarrow> jsnum" where
  "parseFloat_string s =
     (case dropWhile isStrWhiteSpaceChar s of
        [] \<Rightarrow> NaN
      | c # r \<Rightarrow>
          if c = CHR ''-'' then js_neg (strUnsignedDecimalLiteral r)
          else if c = CHR ''+'' then strUnsignedDecimalLiteral r
          else strUnsignedDecimalLiteral (c # r))"

text \<open>
  \<open>parseFloat(v)\<close> first converts \<open>v\<close> to a string. \<open>undefined\<close> becomes the string
  \<open>undefined\<close>, which is no number; a number is printed and read back as itself.
\<close>

fun parseFloat :: "jsval \<Rightarrow> jsnum" where
  "parseFloat Undefined = NaN"
| "parseFloat (Num n) = n"
| "parseFloat (Str s) = parseFloat_string s"

section \<open>The catalog rows kept after loading\<close>

text \<open>
  \<open>Home\<close>, the \<open>complete\<close> callback of the CSV parse:
  \<^verbatim>\<open>results.data.filter((row) => row.x && row.y && row.z && !isNaN(parseFloat(row.x)))\<close>.
  \<open>filter\<close> keeps a row when the value of the callback is truthy; the value of an
  \<open>&&\<close> chain is truthy exactly when every operand is.
\<close>

definition keep_row :: "row \<Rightarrow> bool" where
  "keep_row row =
     (truthy (field row ''x'') \<and> truthy (field row ''y'') \<and> truthy (field row ''z'')
      \<and> \<not> isNaN (parseFloat (field row ''x'')))"

definition filtered :: "row list \<Rightarrow> row list" where
  "filtered data = filter keep_row data"

section \<open>The search filter\<close>

text \<open>
  \<open>String.prototype.toLowerCase\<close> on code units below 256: the ASCII capitals and the
  Latin-1 capitals (all of U+00C0 to U+00DE but the multiplication sign) move up by 32.
\<close>

definition toLower_char :: "char \<Rightarrow> char" where
  "toLower_char c =
     (let n = (of_char c :: nat)
      in if (65 \<le> n \<and> n \<le> 90) \<or> (192 \<le> n \<and> n \<le> 222 \<and> n \<noteq> 215) then char_of (n + 32) else c)"

definition toLowerCase :: "string \<Rightarrow> string" where
  "toLowerCase s = map toLower_char s"

text \<open>
  \<open>s.includes(q)\<close> (\<open>includes\<close> is a keyword of Isabelle, hence the prefix): does \<open>q\<close> occur
  in \<open>s\<close> as a block of consecutive characters.
\<close>

fun str_includes :: "string \<Rightarrow> string \<Rightarrow> bool" where
  "str_includes [] q = (q = [])"
| "str_includes (c # cs) q = (take (length q) (c # cs) = q \<or> str_includes cs q)"

datatype error = TypeError

text \<open>
  The method call \<open>v.toLowerCase()\<close> on a property value: only a string has the method;
  on a number the call is a \<open>TypeError\<close> (not a function), on \<open>undefined\<close> too.
\<close>

fun call_toLowerCase :: "jsval \<Rightarrow> error + string" where
  "call_toLowerCase (Str s) = Inr (toLowerCase s)"
| "call_toLowerCase (Num n) = Inl TypeError"
| "call_toLowerCase Undefined = Inl TypeError"

text \<open>
  One disjunct of the callback, \<^verbatim>\<open>v && v.toLowerCase().includes(search.toLowerCase())\<close>,
  as its truth value: a falsy \<open>v\<close> ends the \<open>&&\<close> before the method call.
\<close>

definition name_includes :: "jsval \<Rightarrow> string \<Rightarrow> error + bool" where
  "name_includes v search =
     (if truthy v then
        (case call_toLowerCase v of
           Inl e \<Rightarrow> Inl e
         | Inr l \<Rightarrow> Inr (str_includes l (toLowerCase search)))
      else Inr False)"

text \<open>The callback: \<open>proper\<close>, then \<open>bayer\<close>, then \<open>gl\<close>; \<open>||\<close> stops at the first match.\<close>

definition star_matches :: "string \<Rightarrow> row \<Rightarrow> error + bool" where
  "star_matches search s =
     (case name_includes (field s ''proper'') search of
        Inl e \<Rightarrow> Inl e
      | Inr True \<Rightarrow> Inr True
      | Inr False \<Rightarrow>
          (case name_includes (field s ''bayer'') search of
             Inl e \<Rightarrow> Inl e
           | Inr True \<Rightarrow> Inr True
           | Inr False \<Rightarrow> name_includes (field s ''gl'') search))"

text \<open>\<open>Array.prototype.filter\<close> with a callback that may throw: the first throw ends it.\<close>

fun filter_throwing :: "('a \<Rightarrow> error + bool) \<Rightarrow> 'a list \<Rightarrow> error + 'a list" where
  "filter_throwing f [] = Inr []"
| "filter_throwing f (x # xs) =
     (case f x of
        Inl e \<Rightarrow> Inl e
      | Inr b \<Rightarrow>
          (case filter_throwing f xs of
             Inl e \<Rightarrow> Inl e
           | Inr ys \<Rightarrow> Inr (if b then x # ys else ys)))"

text \<open>\<open>Home\<close>: \<^verbatim>\<open>const filteredStars = search.length > 1 ? stars.filter(...) : stars\<close>.\<close>

definition filteredStars :: "string \<Rightarrow> row list \<Rightarrow> error + row list" where
  "filteredStars search stars =
     (if length search > 1 then filter_throwing (star_matches search) stars else Inr stars)"

section \<open>The point buffers of \<open>StarField\<close>\<close>

text \<open>
  The colour of a star from its \<open>ci\<close> property (the body of the loop, from
  \<^verbatim>\<open>let color = [1, 1, 1]\<close> to the end of \<^verbatim>\<open>if (s.ci) { ... }\<close>).
\<close>

definition color :: "jsval \<Rightarrow> jsnum list" where
  "color ci =
     (if truthy ci then
        let c = Math_max (js_neg (fl64 0.4)) (Math_min (fl64 2) (or_zero (parseFloat ci)))
        in [Math_min (fl64 1) (js_sub (fl64 1.5) c),
            Math_min (fl64 1) (js_sub (fl64 1.2) (Math_abs (js_sub (fl64 0.4) c))),
            Math_min (fl64 1) (js_mul (fl64 1.8) c)]
      else [fl64 1, fl64 1, fl64 1])"





section \<open>Picking and the state of \<open>Home\<close>\<close>

text \<open>
  The renderer's ray caster answers a click with the list of points the ray meets; each
  entry carries the distance along the ray and the index of the point in the buffers.
  The construction of the ray from the pointer position belongs to the renderer, so
  \<open>handleClick\<close> is modelled from the answer on: it gives the index passed to
  \<open>onStarClick\<close>, or \<open>None\<close> when \<open>onStarClick\<close> is not called.
\<close>

record intersection =
  distance :: real
  index :: nat

definition handleClick :: "intersection list \<Rightarrow> nat option" where
  "handleClick intersects =
     (case intersects of [] \<Rightarrow> None | first # _ \<Rightarrow> Some (index first))"

text \<open>\<open>selected\<close> holds \<open>null\<close>, a row, or \<open>undefined\<close> (an index beyond the list).\<close>

datatype selection = Null | Missing | Star row

record home =
  stars :: "row list"
  selected :: selection
  search :: string
  loading :: bool

definition initial :: home where
  "initial = \<lparr>stars = [], selected = Null, search = [], loading = True\<rparr>"

datatype event =
    Complete "row list"
  | Change string
  | Click "intersection list"
  | Close

text \<open>\<^verbatim>\<open>onStarClick={index => setSelected(filteredStars[index])}\<close>\<close>

definition onStarClick :: "row list \<Rightarrow> nat \<Rightarrow> home \<Rightarrow> home" where
  "onStarClick fs i st = st\<lparr>selected := (if i < length fs then Star (fs ! i) else Missing)\<rparr>"

text \<open>
  One event of the page. \<open>Complete\<close> is the end of the CSV parse, \<open>Change\<close> the search
  box, \<open>Click\<close> a click on the canvas, \<open>Close\<close> the button of the sidebar.
  The click handler exists only while \<open>StarField\<close> is mounted, that is while
  \<open>filteredStars\<close> is not empty; the close button only while a star is shown. When the
  filter throws, rendering fails and the page is gone: no event changes the state then.
\<close>

definition step :: "event \<Rightarrow> home \<Rightarrow> home" where
  "step e st =
     (case filteredStars (search st) (stars st) of
        Inl err \<Rightarrow> st
      | Inr fs \<Rightarrow>
          (case e of
             Complete data \<Rightarrow> st\<lparr>stars := filtered data, loading := False\<rparr>
           | Change text \<Rightarrow> st\<lparr>search := text\<rparr>
           | Click intersects \<Rightarrow>
               (if fs = [] then st
                else case handleClick intersects of
                       None \<Rightarrow> st
                     | Some i \<Rightarrow> onStarClick fs i st)
           | Close \<Rightarrow>
               (case selected st of Star r \<Rightarrow> st\<lparr>selected := Null\<rparr> | _ \<Rightarrow> st)))"

definition run :: "event list \<Rightarrow> home \<Rightarrow> home" where
  "run es st = fold step es st"

section \<open>Notions of the specification\<close>

text \<open>
  The specification speaks of fields that are present, of values that parse as a number
  and of the rows the parser delivers. These definitions follow its words; the theorems
  below compare them with the code.

  \<open>is_text\<close>: a property value as the CSV parser delivers it, a string or nothing.
  \<open>present\<close>: a string that is not empty (an empty cell counts as missing).
\<close>

definition is_text :: "jsval \<Rightarrow> bool" where
  "is_text v = (case v of Num n \<Rightarrow> False | _ \<Rightarrow> True)"

fun present :: "jsval \<Rightarrow> bool" where
  "present (Str s) = (s \<noteq> [])"
| "present _ = False"

text \<open>A value that is a finite number, and the two readings of a valid row.\<close>

fun finite_num :: "jsnum \<Rightarrow> bool" where
  "finite_num (Fin r) = True"
| "finite_num _ = False"

definition spec_valid_finite :: "row \<Rightarrow> bool" where
  "spec_valid_finite r =
     (present (field r ''x'') \<and> present (field r ''y'') \<and> present (field r ''z'')
      \<and> finite_num (parseFloat (field r ''x'')))"

definition spec_valid :: "row \<Rightarrow> bool" where
  "spec_valid r =
     (present (field r ''x'') \<and> present (field r ''y'') \<and> present (field r ''z'')
      \<and> parseFloat (field r ''x'') \<noteq> NaN)"

text \<open>A row with the three coordinates only.\<close>

definition xyz :: "jsval \<Rightarrow> jsval \<Rightarrow> jsval \<Rightarrow> row" where
  "xyz a b c = [''x'' \<mapsto> a, ''y'' \<mapsto> b, ''z'' \<mapsto> c]"

text \<open>
  The colour as the specification writes it: a channel in \<open>[0,1]\<close>, pure white, the clamp
  \<open>clamp(n, -0.4, 2.0)\<close>, and the three formulas \<open>min(1, 1.5 - c)\<close>,
  \<open>min(1, 1.2 - |0.4 - c|)\<close>, \<open>min(1, 1.8 * c)\<close>, all in the arithmetic of doubles.
  \<open>js_le\<close> is \<open>\<le>\<close> on numbers.
\<close>

fun in_unit :: "jsnum \<Rightarrow> bool" where
  "in_unit (Fin r) = (0 \<le> r \<and> r \<le> 1)"
| "in_unit _ = False"

definition white :: "jsnum list" where
  "white = [Fin 1, Fin 1, Fin 1]"

fun js_le :: "jsnum \<Rightarrow> jsnum \<Rightarrow> bool" where
  "js_le NaN _ = False"
| "js_le _ NaN = False"
| "js_le NegInf _ = True"
| "js_le _ PosInf = True"
| "js_le PosInf _ = False"
| "js_le _ NegInf = False"
| "js_le (Fin a) (Fin b) = (a \<le> b)"

definition spec_clamp :: "jsnum \<Rightarrow> jsnum" where
  "spec_clamp n = Math_max (js_neg (fl64 0.4)) (Math_min (fl64 2) n)"

definition spec_channels :: "jsnum \<Rightarrow> jsnum list" where
  "spec_channels c =
     [Math_min (fl64 1) (js_sub (fl64 1.5) c),
      Math_min (fl64 1) (js_sub (fl64 1.2) (Math_abs (js_sub (fl64 0.4) c))),
      Math_min (fl64 1) (js_mul (fl64 1.8) c)]"

definition spec_color :: "jsnum \<Rightarrow> jsnum list" where
  "spec_color n = spec_channels (spec_clamp n)"

text \<open>
  The search as the specification writes it: the lowercased query is a substring of the
  lowercased field; a field that is no string does not match.
\<close>

definition spec_name_match :: "string \<Rightarrow> jsval \<Rightarrow> bool" where
  "spec_name_match q v =
     (case v of Str t \<Rightarrow> sublist (toLowerCase q) (toLowerCase t) | _ \<Rightarrow> False)"

definition spec_match :: "string \<Rightarrow> row \<Rightarrow> bool" where
  "spec_match q s =
     (spec_name_match q (field s ''proper'') \<or> spec_name_match q (field s ''bayer'')
      \<or> spec_name_match q (field s ''gl''))"

text \<open>
  The rows of the end-to-end scenario, with strings as values, as the CSV parser
  delivers them.
\<close>

definition sirius :: row where
  "sirius = [''x'' \<mapsto> Str ''1'', ''y'' \<mapsto> Str ''0'', ''z'' \<mapsto> Str ''0'',
             ''ci'' \<mapsto> Str ''0.5'', ''proper'' \<mapsto> Str ''Sirius'']"

definition vega :: row where
  "vega = [''x'' \<mapsto> Str ''0'', ''y'' \<mapsto> Str ''1'', ''z'' \<mapsto> Str ''0'', ''proper'' \<mapsto> Str ''Vega'']"

definition blank :: row where
  "blank = [''x'' \<mapsto> Str [], ''y'' \<mapsto> Str ''0'', ''z'' \<mapsto> Str ''0'']"

text \<open>An event that is neither a pick that hits a point nor a press of the close button.\<close>

fun no_pick_no_close :: "event \<Rightarrow> bool" where
  "no_pick_no_close (Complete d) = True"
| "no_pick_no_close (Change q) = True"
| "no_pick_no_close (Click xs) = (xs = [])"
| "no_pick_no_close Close = False"

text \<open>The page with Sirius and Vega loaded, and the same page with Sirius picked.\<close>

definition loaded :: home where
  "loaded = \<lparr>stars = [sirius, vega], selected = Null, search = [], loading = False\<rparr>"

definition shown :: home where
  "shown = \<lparr>stars = [sirius, vega], selected = Star sirius, search = [], loading = False\<rparr>"

section \<open>Evaluating the built-ins\<close>

lemmas round_defs = fl64_def round_float_def round_half_even_def pow2_def Let_def ilog2.simps

lemmas parseFloat_defs =
  parseFloat_string_def strUnsignedDecimalLiteral_def isStrWhiteSpaceChar_def
  isDecimalDigit_def digitValue_def digitsValue_def exponentPart_def scale10_def round_defs

lemma parseFloat_1: "parseFloat_string ''1'' = Fin 1" by (simp add: parseFloat_defs)
lemma parseFloat_0: "parseFloat_string ''0'' = Fin 0" by (simp add: parseFloat_defs)
lemma parseFloat_2: "parseFloat_string ''2'' = Fin 2" by (simp add: parseFloat_defs)
lemma parseFloat_half: "parseFloat_string ''0.5'' = Fin (1 / 2)" by (simp add: parseFloat_defs)
lemma parseFloat_abc: "parseFloat_string ''abc'' = NaN" by (simp add: parseFloat_defs)
lemma parseFloat_empty: "parseFloat_string [] = NaN" by (simp add: parseFloat_defs)
lemma parseFloat_Infinity: "parseFloat_string ''Infinity'' = PosInf" by (simp add: parseFloat_defs)

lemma field_xyz:
  "field (xyz a b c) ''x'' = a" "field (xyz a b c) ''y'' = b" "field (xyz a b c) ''z'' = c"
  by (simp_all add: field_def xyz_def)

lemma isNaN_iff: "isNaN n \<longleftrightarrow> n = NaN"
  by (cases n) simp_all

lemma truthy_text: "is_text v \<Longrightarrow> truthy v = present v"
  by (cases v) (simp_all add: is_text_def)

lemma keep_row_text:
  assumes "is_text (field r ''x'')" "is_text (field r ''y'')" "is_text (field r ''z'')"
  shows "keep_row r = spec_valid r"
  using assms by (simp add: keep_row_def spec_valid_def truthy_text isNaN_iff)

section \<open>The rows kept after loading\<close>

text \<open>
  A row whose \<open>x\<close> is the text \<open>Infinity\<close> is kept: \<open>parseFloat\<close> gives \<open>Infinity\<close>, which
  is not \<open>NaN\<close>, although it is no finite number.
\<close>

theorem C1_counterexample:
  "filtered [xyz (Str ''Infinity'') (Str ''1'') (Str ''1'')]
     \<noteq> filter spec_valid_finite [xyz (Str ''Infinity'') (Str ''1'') (Str ''1'')]"
  by (simp add: filtered_def keep_row_def spec_valid_finite_def field_xyz parseFloat_Infinity)

text \<open>
  Claim C1, amended. For every sequence of rows whose \<open>x\<close>, \<open>y\<close>, \<open>z\<close> are strings or
  missing, the rows kept are exactly those, in input order, for which \<open>x\<close>, \<open>y\<close> and \<open>z\<close>
  are all present (not empty) and \<open>parseFloat\<close> of \<open>x\<close> is not \<open>NaN\<close>; nothing is asked of
  the numbers in \<open>y\<close> and \<open>z\<close>.
\<close>

theorem filtered_rows:
  assumes "\<forall>r \<in> set data. is_text (field r ''x'') \<and> is_text (field r ''y'') \<and> is_text (field r ''z'')"
  shows "filtered data = filter spec_valid data"
  unfolding filtered_def
  by (rule filter_cong[OF refl]) (use assms in \<open>simp add: keep_row_text\<close>)

text \<open>
  The named rows: \<open>x = abc\<close> is dropped, an empty or missing \<open>y\<close> is dropped, and
  \<open>x = 1, y = abc, z = 1\<close> is kept.
\<close>

theorem filtered_rows_witness:
  "is_text (Str ''abc'') \<and> is_text (Str []) \<and> is_text Undefined \<and> is_text (Str ''1'')
   \<and> filtered [xyz (Str ''abc'') (Str ''1'') (Str ''1''), xyz (Str ''1'') (Str []) (Str ''1''),
               xyz (Str ''1'') (Str ''abc'') (Str ''1''), xyz (Str ''1'') Undefined (Str ''1'')]
     = [xyz (Str ''1'') (Str ''abc'') (Str ''1'')]"
proof -
  let ?data = "[xyz (Str ''abc'') (Str ''1'') (Str ''1''), xyz (Str ''1'') (Str []) (Str ''1''),
               xyz (Str ''1'') (Str ''abc'') (Str ''1''), xyz (Str ''1'') Undefined (Str ''1'')]"
  have h: "\<forall>r \<in> set ?data. is_text (field r ''x'') \<and> is_text (field r ''y'') \<and> is_text (field r ''z'')"
    by (simp add: field_xyz is_text_def)
  have "filter spec_valid ?data = [xyz (Str ''1'') (Str ''abc'') (Str ''1'')]"
    by (simp add: spec_valid_def field_xyz parseFloat_1 parseFloat_abc)
  with filtered_rows[OF h] show ?thesis by (simp add: is_text_def)
qed

text \<open>
  Claim C10. The test on \<open>x\<close>, \<open>y\<close>, \<open>z\<close> is a test of truthiness: a row in which one of them
  is missing, the empty string, the number \<open>0\<close> or \<open>NaN\<close> is not kept.
\<close>

theorem falsy_coordinate_excluded:
  assumes "k \<in> {''x'', ''y'', ''z''}"
    and "field r k \<in> {Undefined, Str [], Num (Fin 0), Num NaN}"
  shows "r \<notin> set (filtered data)"
proof -
  from assms(2) have "\<not> truthy (field r k)" by auto
  with assms(1) have "\<not> keep_row r" by (auto simp: keep_row_def)
  then show ?thesis by (simp add: filtered_def)
qed

text \<open>A row with the numbers \<open>1, 0, 1\<close>: \<open>y = 0\<close> is a finite coordinate, and the row is dropped.\<close>

theorem falsy_coordinate_excluded_witness:
  "''y'' \<in> {''x'', ''y'', ''z''}
   \<and> field (xyz (Num (Fin 1)) (Num (Fin 0)) (Num (Fin 1))) ''y'' \<in> {Undefined, Str [], Num (Fin 0), Num NaN}
   \<and> finite_num (parseFloat (field (xyz (Num (Fin 1)) (Num (Fin 0)) (Num (Fin 1))) ''y''))
   \<and> xyz (Num (Fin 1)) (Num (Fin 0)) (Num (Fin 1))
       \<notin> set (filtered [xyz (Num (Fin 1)) (Num (Fin 0)) (Num (Fin 1))])"
  using falsy_coordinate_excluded[of "''y''" "xyz (Num (Fin 1)) (Num (Fin 0)) (Num (Fin 1))"
      "[xyz (Num (Fin 1)) (Num (Fin 0)) (Num (Fin 1))]"]
  by (simp add: field_xyz)

section \<open>Rounding: error and sign\<close>

lemma pow2_powi: "pow2 e = 2 powi e"
  by (simp add: pow2_def power_int_def inverse_eq_divide power_one_over)

lemma pow2_pos: "0 < pow2 e"
  by (simp add: pow2_powi)

lemma pow2_Suc: "pow2 (e + 1) = 2 * pow2 e"
  by (simp add: pow2_powi power_int_add)

lemma pow2_pred: "pow2 (e - 1) = pow2 e / 2"
  using pow2_Suc[of "e - 1"] by simp

lemma pow2_add: "pow2 (a + b) = pow2 a * pow2 b"
  by (simp add: pow2_powi power_int_add)

lemma pow2_mono: "a \<le> b \<Longrightarrow> pow2 a \<le> pow2 b"
  by (simp add: pow2_powi power_int_increasing)

text \<open>\<open>ilog2\<close> finds a power of two that is not above its argument.\<close>

lemma ilog2_le: "0 < x \<Longrightarrow> pow2 (ilog2 x) \<le> x"
proof (induction x rule: ilog2.induct)
  case (1 x)
  show ?case
  proof (cases "2 \<le> x")
    case True
    with 1 have "pow2 (ilog2 (x / 2)) \<le> x / 2" by simp
    with True show ?thesis by (subst ilog2.simps) (simp add: pow2_Suc)
  next
    case False
    show ?thesis
    proof (cases "x < 1")
      case True
      with 1 False have "pow2 (ilog2 (x * 2)) \<le> x * 2" by simp
      with True False 1(3) show ?thesis by (subst ilog2.simps) (simp add: pow2_pred)
    next
      case F2: False
      with False show ?thesis by (subst ilog2.simps) (simp add: pow2_def)
    qed
  qed
qed

lemma round_half_even_near: "\<bar>of_int (round_half_even t) - t\<bar> \<le> 1 / 2"
  unfolding round_half_even_def Let_def by (auto simp: abs_if) linarith+

lemma round_half_even_sign:
  "0 \<le> t \<Longrightarrow> 0 \<le> round_half_even t" "t \<le> 0 \<Longrightarrow> round_half_even t \<le> 0"
proof -
  show "0 \<le> round_half_even t" if "0 \<le> t"
    using that unfolding round_half_even_def Let_def by (auto simp: abs_if)
  show "round_half_even t \<le> 0" if "t \<le> 0"
  proof (cases "t = 0")
    case True then show ?thesis by (simp add: round_half_even_def)
  next
    case False
    with that have "t < 0" by simp
    then have "\<lfloor>t\<rfloor> \<le> - 1" by (simp add: floor_le_iff)
    then show ?thesis unfolding round_half_even_def Let_def by auto
  qed
qed

text \<open>
  Rounding moves a number by at most half a quantum, keeps its sign, and stays finite
  when that much room is left below \<open>2 ^ emax\<close>.
\<close>

lemma round_float_near:
  fixes p :: nat and x :: real and qmin emax :: int
  defines "u \<equiv> max (pow2 qmin) (\<bar>x\<bar> * pow2 (- (int p - 1))) / 2"
  assumes room: "\<bar>x\<bar> + u < pow2 emax"
  shows "\<exists>r. round_float p qmin emax x = Fin r \<and> \<bar>r - x\<bar> \<le> u
            \<and> (0 \<le> x \<longrightarrow> 0 \<le> r) \<and> (x \<le> 0 \<longrightarrow> r \<le> 0)"
proof (cases "x = 0")
  case True
  have "0 \<le> u" unfolding u_def using pow2_pos[of qmin] by simp
  with True show ?thesis by (simp add: round_float_def)
next
  case False
  define e where "e = max qmin (ilog2 \<bar>x\<bar> - (int p - 1))"
  define m where "m = round_half_even (x / pow2 e)"
  define r where "r = real_of_int m * pow2 e"
  have "pow2 (ilog2 \<bar>x\<bar> - (int p - 1)) = pow2 (ilog2 \<bar>x\<bar>) * pow2 (- (int p - 1))"
  proof -
    have "ilog2 \<bar>x\<bar> - (int p - 1) = ilog2 \<bar>x\<bar> + (- (int p - 1))" by simp
    then show ?thesis by (simp only: pow2_add)
  qed
  also have "\<dots> \<le> \<bar>x\<bar> * pow2 (- (int p - 1))"
    using ilog2_le[of "\<bar>x\<bar>"] False pow2_pos[of "- (int p - 1)"]
    by (intro mult_right_mono) simp_all
  finally have "pow2 e \<le> max (pow2 qmin) (\<bar>x\<bar> * pow2 (- (int p - 1)))"
    unfolding e_def by (cases "qmin \<le> ilog2 \<bar>x\<bar> - (int p - 1)") (simp_all add: max_def)
  then have q: "pow2 e / 2 \<le> u" by (simp add: u_def)
  have "\<bar>real_of_int m - x / pow2 e\<bar> \<le> 1 / 2" unfolding m_def by (rule round_half_even_near)
  then have "\<bar>real_of_int m - x / pow2 e\<bar> * pow2 e \<le> 1 / 2 * pow2 e"
    using pow2_pos[of e] by (intro mult_right_mono) simp_all
  moreover have "r - x = (real_of_int m - x / pow2 e) * pow2 e"
    using pow2_pos[of e] by (simp add: r_def left_diff_distrib)
  then have "\<bar>real_of_int m - x / pow2 e\<bar> * pow2 e = \<bar>r - x\<bar>"
    using pow2_pos[of e] by (simp only: abs_mult abs_of_pos)
  ultimately have near: "\<bar>r - x\<bar> \<le> u" using q by simp
  with room have fin: "\<not> pow2 emax \<le> \<bar>r\<bar>" by linarith
  have eq: "round_float p qmin emax x = Fin r"
    using False fin unfolding round_float_def Let_def e_def m_def r_def by simp
  have "0 \<le> r" if "0 \<le> x"
    using that pow2_pos[of e] round_half_even_sign(1)[of "x / pow2 e"] by (simp add: r_def m_def)
  moreover have "r \<le> 0" if "x \<le> 0"
    using that pow2_pos[of e] round_half_even_sign(2)[of "x / pow2 e"]
    by (simp add: r_def m_def mult_nonpos_nonneg divide_nonpos_pos)
  ultimately show ?thesis using eq near by blast
qed

lemma fl64_near:
  assumes "\<bar>x\<bar> \<le> 8"
  shows "\<exists>r. fl64 x = Fin r \<and> \<bar>r - x\<bar> \<le> 1 / 2 ^ 50
            \<and> (0 \<le> x \<longrightarrow> 0 \<le> r) \<and> (x \<le> 0 \<longrightarrow> r \<le> 0)"
proof -
  let ?u = "max (pow2 (- 1074)) (\<bar>x\<bar> * pow2 (- (int 53 - 1))) / 2"
  have "\<bar>x\<bar> * pow2 (- (int 53 - 1)) \<le> 8 * pow2 (- (int 53 - 1))"
    using assms pow2_pos[of "- (int 53 - 1)"] by (intro mult_right_mono) simp_all
  also have "\<dots> = 2 / 2 ^ 50" by (simp add: pow2_def)
  finally have a: "\<bar>x\<bar> * pow2 (- (int 53 - 1)) \<le> 2 / 2 ^ 50" .
  have b: "pow2 (- 1074) \<le> 2 / 2 ^ 50" by (simp add: pow2_def)
  from a b have u: "?u \<le> 1 / 2 ^ 50" by simp
  have "(1::real) / 2 ^ 50 \<le> 1" by simp
  with u assms have "\<bar>x\<bar> + ?u \<le> 9" by linarith
  moreover have "(9::real) < pow2 1024" by (simp add: pow2_def)
  ultimately have "\<bar>x\<bar> + ?u < pow2 1024" by linarith
  from round_float_near[OF this] u show ?thesis
    unfolding fl64_def by (meson order_trans)
qed

lemma lit_1: "fl64 1 = Fin 1" by (simp add: round_defs)
lemma lit_2: "fl64 2 = Fin 2" by (simp add: round_defs)
lemma lit_15: "fl64 (3 / 2) = Fin (3 / 2)" by (simp add: round_defs)
lemma lit_04: "fl64 (2 / 5) = Fin (3602879701896397 / 9007199254740992)" by (simp add: round_defs)
lemma lit_12: "fl64 (6 / 5) = Fin (5404319552844595 / 4503599627370496)" by (simp add: round_defs)
lemma lit_18: "fl64 (9 / 5) = Fin (8106479329266893 / 4503599627370496)" by (simp add: round_defs)
lemmas lits = lit_1 lit_2 lit_15 lit_04 lit_12 lit_18

section \<open>The colour of a star\<close>

lemma color_truthy:
  "truthy ci \<Longrightarrow> color ci = spec_channels (spec_clamp (or_zero (parseFloat ci)))"
  by (simp add: color_def spec_channels_def spec_clamp_def Let_def)

lemma color_falsy: "\<not> truthy ci \<Longrightarrow> color ci = white"
  by (simp add: color_def white_def lit_1)

lemma falsy_iff: "\<not> truthy v \<longleftrightarrow> v \<in> {Undefined, Str [], Num (Fin 0), Num NaN}"
  by (induction v rule: truthy.induct) simp_all

text \<open>The clamped \<open>c\<close> is a finite double between the literals \<open>-0.4\<close> and \<open>2\<close>.\<close>

lemma spec_clamp_range:
  "\<exists>c. spec_clamp (or_zero n) = Fin c \<and> - (3602879701896397 / 9007199254740992) \<le> c \<and> c \<le> 2
       \<and> (\<forall>x. n = Fin x \<and> 0 \<le> x \<and> x \<le> 3 / 2 \<longrightarrow> c = x)"
  by (cases n) (auto simp: spec_clamp_def or_zero_def lit_04 lit_2)

lemma spec_channels_bounds:
  assumes "- (3602879701896397 / 9007199254740992) \<le> c" "c \<le> 2"
  shows "\<exists>r g b. spec_channels (Fin c) = [Fin r, Fin g, Fin b] \<and> r \<le> 1 \<and> g \<le> 1 \<and> b \<le> 1
           \<and> (0 \<le> c \<and> c \<le> 3 / 2 \<longrightarrow> 0 \<le> r \<and> 0 \<le> g \<and> 0 \<le> b)"
proof -
  let ?d04 = "3602879701896397 / 9007199254740992 :: real"
  let ?d12 = "5404319552844595 / 4503599627370496 :: real"
  let ?d18 = "8106479329266893 / 4503599627370496 :: real"
  have "\<bar>3 / 2 - c\<bar> \<le> 8" using assms by (simp add: abs_if)
  from fl64_near[OF this] obtain r0 where r0: "fl64 (3 / 2 - c) = Fin r0"
    and r0s: "0 \<le> 3 / 2 - c \<longrightarrow> 0 \<le> r0" by blast
  have "\<bar>?d04 - c\<bar> \<le> 8" using assms by (simp add: abs_if)
  from fl64_near[OF this] obtain v where v: "fl64 (?d04 - c) = Fin v"
    and vn: "\<bar>v - (?d04 - c)\<bar> \<le> 1 / 2 ^ 50" by blast
  have "(1::real) / 2 ^ 50 \<le> 1 / 1000" by simp
  with vn have vn': "\<bar>v - (?d04 - c)\<bar> \<le> 1 / 1000" by (rule order_trans)
  with assms have vb: "\<bar>v\<bar> \<le> 2" by (simp add: abs_if split: if_splits)
  then have "\<bar>?d12 - \<bar>v\<bar>\<bar> \<le> 8" by (simp add: abs_if split: if_splits)
  from fl64_near[OF this] obtain g0 where g0: "fl64 (?d12 - \<bar>v\<bar>) = Fin g0"
    and g0s: "0 \<le> ?d12 - \<bar>v\<bar> \<longrightarrow> 0 \<le> g0" by blast
  have "\<bar>?d18 * c\<bar> \<le> ?d18 * 2"
    using assms by (simp add: abs_if)
  then have "\<bar>?d18 * c\<bar> \<le> 8" by simp
  from fl64_near[OF this] obtain b0 where b0: "fl64 (?d18 * c) = Fin b0"
    and b0s: "0 \<le> ?d18 * c \<longrightarrow> 0 \<le> b0" by blast
  from b0 have b0': "fl64 (8106479329266893 * c / 4503599627370496) = Fin b0" by simp
  have ch: "spec_channels (Fin c) = [Fin (min 1 r0), Fin (min 1 g0), Fin (min 1 b0)]"
    by (simp add: spec_channels_def lits r0 v g0 b0')
  have pos: "0 \<le> min 1 r0 \<and> 0 \<le> min 1 g0 \<and> 0 \<le> min 1 b0" if c: "0 \<le> c \<and> c \<le> 3 / 2"
  proof -
    from c r0s have "0 \<le> r0" by simp
    moreover from c vn' have "\<bar>v\<bar> \<le> ?d12" by (simp add: abs_if split: if_splits)
    with g0s have "0 \<le> g0" by simp
    moreover from c have "0 \<le> ?d18 * c" by simp
    with b0s have "0 \<le> b0" by simp
    ultimately show ?thesis by simp
  qed
  have "min 1 r0 \<le> 1" "min 1 g0 \<le> 1" "min 1 b0 \<le> 1" by simp_all
  with ch pos show ?thesis by blast
qed

text \<open>The roundings that the colours at \<open>c = 2\<close>, \<open>0\<close> and \<open>0.5\<close> go through.\<close>

lemma fl64_vals:
  "fl64 (- (1 / 2)) = Fin (- (1 / 2))"
  "fl64 (- (14411518807585587 / 9007199254740992)) = Fin (- (3602879701896397 / 2251799813685248))"
  "fl64 (- (1801439850948199 / 4503599627370496)) = Fin (- (1801439850948199 / 4503599627370496))"
  "fl64 (8106479329266893 / 2251799813685248) = Fin (8106479329266893 / 2251799813685248)"
  "fl64 (3 / 2) = Fin (3 / 2)"
  "fl64 (3602879701896397 / 9007199254740992) = Fin (3602879701896397 / 9007199254740992)"
  "fl64 (7205759403792793 / 9007199254740992) = Fin (7205759403792793 / 9007199254740992)"
  "fl64 0 = Fin 0"
  "fl64 1 = Fin 1"
  "fl64 (- (900719925474099 / 9007199254740992)) = Fin (- (900719925474099 / 9007199254740992))"
  "fl64 (9907919180215091 / 9007199254740992) = Fin (2476979795053773 / 2251799813685248)"
  "fl64 (8106479329266893 / 9007199254740992) = Fin (8106479329266893 / 9007199254740992)"
  by (simp_all add: round_defs)

lemma color_2:
  "color (Str ''2'') = [Fin (- 1 / 2), Fin (- (1801439850948199 / 4503599627370496)), Fin 1]"
  by (simp add: color_truthy parseFloat_2 or_zero_def spec_clamp_def spec_channels_def lits fl64_vals)

lemma color_abc:
  "color (Str ''abc'') = [Fin 1, Fin (7205759403792793 / 9007199254740992), Fin 0]"
  by (simp add: color_truthy parseFloat_abc or_zero_def spec_clamp_def spec_channels_def lits fl64_vals)

lemma color_half:
  "color (Str ''0.5'') = [Fin 1, Fin 1, Fin (8106479329266893 / 9007199254740992)]"
  by (simp add: color_truthy parseFloat_half or_zero_def spec_clamp_def spec_channels_def lits fl64_vals)


lemma parseFloat_04:
  "parseFloat_string ''0.4'' = Fin (3602879701896397 / 9007199254740992)"
  by (simp add: parseFloat_defs)

lemma parseFloat_m04:
  "parseFloat_string ''-0.4'' = Fin (- (3602879701896397 / 9007199254740992))"
proof -
  have "parseFloat_string ''-0.4'' = js_neg (parseFloat_string ''0.4'')"
    by (simp add: parseFloat_string_def isStrWhiteSpaceChar_def)
  then show ?thesis by (simp only: parseFloat_04 js_neg.simps)
qed

lemma parseFloat_7: "parseFloat_string ''7'' = Fin 7" by (simp add: parseFloat_defs)
lemma parseFloat_m1: "parseFloat_string ''-1'' = Fin (- 1)"
proof -
  have "parseFloat_string ''-1'' = js_neg (parseFloat_string ''1'')"
    by (simp add: parseFloat_string_def isStrWhiteSpaceChar_def)
  then show ?thesis by (simp add: parseFloat_1)
qed

lemma text_parsed_truthy:
  assumes "is_text ci" "parseFloat ci \<noteq> NaN"
  shows "truthy ci"
  using assms by (cases ci) (auto simp: is_text_def parseFloat_empty)

lemma or_zero_number: "n \<noteq> NaN \<Longrightarrow> or_zero n = n"
  by (cases n) (simp_all add: or_zero_def)

lemma color_text:
  assumes "is_text ci" "parseFloat ci \<noteq> NaN"
  shows "color ci = spec_color (parseFloat ci)"
  using color_truthy[OF text_parsed_truthy[OF assms]] assms(2)
  by (simp add: or_zero_number spec_color_def)

lemma spec_clamp_low:
  "js_le n (Fin (- (3602879701896397 / 9007199254740992)))
   \<Longrightarrow> spec_clamp n = Fin (- (3602879701896397 / 9007199254740992))"
  by (cases n) (simp_all add: spec_clamp_def lit_04 lit_2)

lemma spec_clamp_high: "js_le (Fin 2) n \<Longrightarrow> spec_clamp n = Fin 2"
  by (cases n) (simp_all add: spec_clamp_def lit_04 lit_2)

text \<open>
  The text \<open>2\<close> as colour index: the red channel is \<open>1.5 - 2 = -0.5\<close> and the green one
  \<open>1.2 - |0.4 - 2|\<close>, which is \<open>-0.40000000000000013\<close> in doubles. Nothing in the code
  bounds a channel from below.
\<close>

theorem C2_counterexample: "\<not> list_all in_unit (color (Str ''2''))"
  by (simp add: color_2)

text \<open>
  Claim C2, amended. For every value of \<open>ci\<close> the colour has three finite channels, each
  at most \<open>1\<close>. All three lie in \<open>[0,1]\<close> when \<open>ci\<close> is falsy or parses to a number between
  \<open>0\<close> and \<open>1.5\<close>; outside of that a channel can be negative.
\<close>

theorem color_channel_bounds:
  "(\<exists>r g b. color ci = [Fin r, Fin g, Fin b] \<and> r \<le> 1 \<and> g \<le> 1 \<and> b \<le> 1)
   \<and> ((\<not> truthy ci \<or> (\<exists>x. parseFloat ci = Fin x \<and> 0 \<le> x \<and> x \<le> 1.5))
         \<longrightarrow> list_all in_unit (color ci))"
proof (cases "truthy ci")
  case False
  then show ?thesis by (simp add: color_falsy white_def)
next
  case True
  from spec_clamp_range[of "parseFloat ci"] obtain c
    where c: "spec_clamp (or_zero (parseFloat ci)) = Fin c"
      and range: "- (3602879701896397 / 9007199254740992) \<le> c" "c \<le> 2"
      and same: "\<forall>x. parseFloat ci = Fin x \<and> 0 \<le> x \<and> x \<le> 3 / 2 \<longrightarrow> c = x"
    by blast
  from spec_channels_bounds[OF range] obtain r g b
    where ch: "spec_channels (Fin c) = [Fin r, Fin g, Fin b]"
      and le: "r \<le> 1" "g \<le> 1" "b \<le> 1"
      and pos: "0 \<le> c \<and> c \<le> 3 / 2 \<longrightarrow> 0 \<le> r \<and> 0 \<le> g \<and> 0 \<le> b"
    by blast
  have col: "color ci = [Fin r, Fin g, Fin b]"
    by (simp add: color_truthy[OF True] c ch)
  have "list_all in_unit (color ci)" if "parseFloat ci = Fin x" "0 \<le> x" "x \<le> 1.5" for x
  proof -
    from that same have "c = x" by simp
    with that pos le show ?thesis by (simp add: col)
  qed
  with col le True show ?thesis by blast
qed

text \<open>
  The text \<open>0.5\<close>: the colour is \<open>(1, 1, 0.9)\<close>, the last being the double \<open>1.8 * 0.5\<close>.
\<close>

theorem color_channel_bounds_witness:
  "parseFloat (Str ''0.5'') = Fin (1 / 2)
   \<and> color (Str ''0.5'') = [Fin 1, Fin 1, Fin (8106479329266893 / 9007199254740992)]
   \<and> list_all in_unit (color (Str ''0.5''))"
proof -
  have p: "parseFloat (Str ''0.5'') = Fin (1 / 2) \<and> (0::real) \<le> 1 / 2 \<and> (1 / 2 :: real) \<le> 1.5"
    by (simp add: parseFloat_half)
  from color_channel_bounds[of "Str ''0.5''"] p have "list_all in_unit (color (Str ''0.5''))"
    by blast
  with color_half p show ?thesis by blast
qed

text \<open>
  The text \<open>abc\<close> as colour index does not parse, and the colour is not white:
  \<^verbatim>\<open>parseFloat(s.ci) || 0\<close> turns \<open>NaN\<close> into \<open>0\<close>.
\<close>

theorem C3_counterexample:
  "isNaN (parseFloat (Str ''abc'')) \<and> color (Str ''abc'') \<noteq> white"
  by (simp add: color_abc parseFloat_abc white_def)

text \<open>
  Claim C3, amended. When \<open>ci\<close> is missing, the empty string, the number \<open>0\<close> or \<open>NaN\<close>, the
  colour is exactly white \<open>(1,1,1)\<close>. A truthy \<open>ci\<close> that does not parse as a number (a text
  that is not empty and not numeric) is read as \<open>0\<close> and gives the formula's value there,
  \<open>(1, 0.7999999999999999, 0)\<close>: in doubles \<open>1.2 - 0.4\<close> is one step below \<open>0.8\<close>.
\<close>

theorem color_fallback:
  "(ci \<in> {Undefined, Str [], Num (Fin 0), Num NaN} \<longrightarrow> color ci = white)
   \<and> (truthy ci \<and> isNaN (parseFloat ci) \<longrightarrow>
        color ci = [Fin 1, Fin (7205759403792793 / 9007199254740992), Fin 0])"
proof (intro conjI impI)
  assume "ci \<in> {Undefined, Str [], Num (Fin 0), Num NaN}"
  then have "\<not> truthy ci" by (simp only: falsy_iff)
  then show "color ci = white" by (rule color_falsy)
next
  assume a: "truthy ci \<and> isNaN (parseFloat ci)"
  then have "color ci = spec_channels (spec_clamp (or_zero NaN))"
    by (simp add: color_truthy isNaN_iff)
  also have "\<dots> = color (Str ''abc'')"
    by (simp add: color_truthy parseFloat_abc)
  finally show "color ci = [Fin 1, Fin (7205759403792793 / 9007199254740992), Fin 0]"
    by (simp only: color_abc)
qed

theorem color_fallback_witness:
  "color Undefined = white \<and> color (Str []) = white
   \<and> color (Str ''abc'') = [Fin 1, Fin (7205759403792793 / 9007199254740992), Fin 0]"
  using color_fallback[of Undefined] color_fallback[of "Str []"] color_fallback[of "Str ''abc''"]
  by (simp add: parseFloat_abc)

text \<open>
  Claim C4. For every \<open>ci\<close> the parser can deliver (a string, or nothing) that parses to a
  number \<open>n\<close>, the colour is \<open>(min(1, 1.5 - c), min(1, 1.2 - |0.4 - c|), min(1, 1.8 * c))\<close>
  at \<open>c = clamp(n, -0.4, 2)\<close>, computed in doubles; a number at or below \<open>-0.4\<close> gives the
  colour of \<open>-0.4\<close>, a number at or above \<open>2\<close> the colour of \<open>2\<close>.
\<close>

theorem color_formula:
  assumes "is_text ci" and "parseFloat ci \<noteq> NaN"
  shows "color ci = spec_color (parseFloat ci)
         \<and> (js_le (parseFloat ci) (parseFloat (Str ''-0.4'')) \<longrightarrow> color ci = color (Str ''-0.4''))
         \<and> (js_le (parseFloat (Str ''2'')) (parseFloat ci) \<longrightarrow> color ci = color (Str ''2''))"
proof (intro conjI impI)
  show c: "color ci = spec_color (parseFloat ci)" by (rule color_text[OF assms])
  have low: "color (Str ''-0.4'') = spec_color (Fin (- (3602879701896397 / 9007199254740992)))"
    using color_text[of "Str ''-0.4''"] by (simp add: is_text_def parseFloat_m04)
  have high: "color (Str ''2'') = spec_color (Fin 2)"
    using color_text[of "Str ''2''"] by (simp add: is_text_def parseFloat_2)
  show "color ci = color (Str ''-0.4'')" if "js_le (parseFloat ci) (parseFloat (Str ''-0.4''))"
  proof -
    from that have "spec_clamp (parseFloat ci) = Fin (- (3602879701896397 / 9007199254740992))"
      by (simp add: parseFloat_m04 spec_clamp_low)
    moreover have "spec_clamp (Fin (- (3602879701896397 / 9007199254740992)))
        = Fin (- (3602879701896397 / 9007199254740992))"
      by (rule spec_clamp_low) simp
    ultimately show ?thesis unfolding c low by (simp add: spec_color_def)
  qed
  show "color ci = color (Str ''2'')" if "js_le (parseFloat (Str ''2'')) (parseFloat ci)"
  proof -
    from that have "spec_clamp (parseFloat ci) = Fin 2"
      by (simp add: parseFloat_2 spec_clamp_high)
    moreover have "spec_clamp (Fin 2) = Fin 2" by (rule spec_clamp_high) simp
    ultimately show ?thesis unfolding c high by (simp add: spec_color_def)
  qed
qed

text \<open>
  The text \<open>0\<close> is numeric and gets the formula at \<open>0\<close>; \<open>7\<close> is coloured as \<open>2\<close> and \<open>-1\<close> as \<open>-0.4\<close>.
\<close>

theorem color_formula_witness:
  "is_text (Str ''0'') \<and> parseFloat (Str ''0'') = Fin 0
   \<and> color (Str ''0'') = [Fin 1, Fin (7205759403792793 / 9007199254740992), Fin 0]
   \<and> color (Str ''7'') = color (Str ''2'')
   \<and> color (Str ''-1'') = color (Str ''-0.4'') "
proof -
  have t: "is_text (Str s)" for s by (simp add: is_text_def)
  have "parseFloat (Str ''0'') \<noteq> NaN" by (simp add: parseFloat_0)
  with color_formula[OF t, of "''0''"] have "color (Str ''0'') = spec_color (parseFloat (Str ''0''))"
    by blast
  then have "color (Str ''0'') = spec_color (Fin 0)" by (simp add: parseFloat_0)
  also have "\<dots> = color (Str ''abc'')"
    by (simp add: color_truthy parseFloat_abc spec_color_def or_zero_def)
  finally have a: "color (Str ''0'') = [Fin 1, Fin (7205759403792793 / 9007199254740992), Fin 0]"
    by (simp only: color_abc)
  have "parseFloat (Str ''7'') \<noteq> NaN" "js_le (parseFloat (Str ''2'')) (parseFloat (Str ''7''))"
    by (simp_all add: parseFloat_7 parseFloat_2)
  with color_formula[OF t, of "''7''"] have b: "color (Str ''7'') = color (Str ''2'')"
    by blast
  have "parseFloat (Str ''-1'') \<noteq> NaN" "js_le (parseFloat (Str ''-1'')) (parseFloat (Str ''-0.4''))"
    by (simp_all add: parseFloat_m1 parseFloat_m04)
  with color_formula[OF t, of "''-1''"] have c: "color (Str ''-1'') = color (Str ''-0.4'')"
    by blast
  from a b c t show ?thesis by (simp add: parseFloat_0)
qed

section \<open>The search filter on the rows\<close>

lemma take_prefix: "take (length q) s = q \<longleftrightarrow> prefix q s"
proof
  assume "take (length q) s = q"
  then show "prefix q s" by (metis take_is_prefix)
next
  assume "prefix q s"
  then show "take (length q) s = q" by (auto elim: prefixE)
qed

lemma str_includes_sublist: "str_includes s q \<longleftrightarrow> sublist q s"
proof (induction s)
  case Nil
  show ?case by auto
next
  case (Cons c cs)
  then show ?case by (simp only: str_includes.simps take_prefix sublist_Cons_right)
qed

lemma toLowerCase_Nil: "toLowerCase q = [] \<longleftrightarrow> q = []"
  by (simp add: toLowerCase_def)

lemma name_includes_text:
  assumes "is_text v" "q \<noteq> []"
  shows "name_includes v q = Inr (spec_name_match q v)"
proof (cases v)
  case (Str t)
  show ?thesis
  proof (cases "t = []")
    case True
    with Str assms(2) show ?thesis
      by (simp add: name_includes_def spec_name_match_def toLowerCase_def)
  next
    case False
    with Str show ?thesis
      by (simp add: name_includes_def spec_name_match_def str_includes_sublist)
  qed
qed (use assms in \<open>simp_all add: name_includes_def spec_name_match_def is_text_def\<close>)

lemma star_matches_text:
  assumes "is_text (field s ''proper'')" "is_text (field s ''bayer'')" "is_text (field s ''gl'')"
    and "q \<noteq> []"
  shows "star_matches q s = Inr (spec_match q s)"
  using assms by (simp add: star_matches_def spec_match_def name_includes_text split: bool.splits)

lemma filter_throwing_total:
  assumes "\<forall>x \<in> set xs. f x = Inr (P x)"
  shows "filter_throwing f xs = Inr (filter P xs)"
  using assms by (induction xs) simp_all

text \<open>
  Claim C5. For rows whose \<open>proper\<close>, \<open>bayer\<close> and \<open>gl\<close> are strings or missing, and every
  query: a query of length at most \<open>1\<close> gives the rows back unchanged; a query of length
  at least \<open>2\<close> gives, without error, exactly the rows in which the lowercased query is a
  substring of the lowercased \<open>proper\<close>, \<open>bayer\<close> or \<open>gl\<close>, in their order (a subsequence);
  a missing field never matches, and the result is the empty list when no row matches.
\<close>

theorem filteredStars_search:
  assumes "\<forall>s \<in> set rows. is_text (field s ''proper'') \<and> is_text (field s ''bayer'')
             \<and> is_text (field s ''gl'')"
  shows "(length q \<le> 1 \<longrightarrow> filteredStars q rows = Inr rows)
         \<and> (2 \<le> length q \<longrightarrow>
              filteredStars q rows = Inr (filter (spec_match q) rows)
              \<and> subseq (filter (spec_match q) rows) rows)"
proof (intro conjI impI)
  assume "length q \<le> 1"
  then show "filteredStars q rows = Inr rows" by (simp add: filteredStars_def)
next
  assume q: "2 \<le> length q"
  then have "q \<noteq> []" by auto
  with assms have "\<forall>s \<in> set rows. star_matches q s = Inr (spec_match q s)"
    by (simp add: star_matches_text)
  then have "filter_throwing (star_matches q) rows = Inr (filter (spec_match q) rows)"
    by (rule filter_throwing_total)
  with q show "filteredStars q rows = Inr (filter (spec_match q) rows)"
    by (simp add: filteredStars_def)
next
  show "subseq (filter (spec_match q) rows) rows" by simp
qed

lemma lower_sirius: "toLowerCase ''Sirius'' = ''sirius''" by code_simp
lemma lower_vega: "toLowerCase ''Vega'' = ''vega''" by code_simp
lemma lower_SIR: "toLowerCase ''SIR'' = ''sir''" by code_simp
lemma lower_zz: "toLowerCase ''zz'' = ''zz''" by code_simp

lemma fields_sirius:
  "field sirius ''x'' = Str ''1''" "field sirius ''y'' = Str ''0''" "field sirius ''z'' = Str ''0''"
  "field sirius ''ci'' = Str ''0.5''" "field sirius ''proper'' = Str ''Sirius''"
  "field sirius ''bayer'' = Undefined" "field sirius ''gl'' = Undefined"
  by (simp_all add: field_def sirius_def)

lemma fields_vega:
  "field vega ''x'' = Str ''0''" "field vega ''y'' = Str ''1''" "field vega ''z'' = Str ''0''"
  "field vega ''ci'' = Undefined" "field vega ''proper'' = Str ''Vega''"
  "field vega ''bayer'' = Undefined" "field vega ''gl'' = Undefined"
  by (simp_all add: field_def vega_def)

lemma fields_blank:
  "field blank ''x'' = Str []" "field blank ''y'' = Str ''0''" "field blank ''z'' = Str ''0''"
  by (simp_all add: field_def blank_def)

lemma spec_match_examples:
  "spec_match ''SIR'' sirius" "\<not> spec_match ''SIR'' vega"
  "\<not> spec_match ''zz'' sirius" "\<not> spec_match ''zz'' vega"
  by (simp_all add: spec_match_def spec_name_match_def fields_sirius fields_vega
      lower_sirius lower_vega lower_SIR lower_zz sublist_code)

text \<open>
  Two rows and three queries: one character, a match in capitals, and no match at all.
\<close>

theorem filteredStars_search_witness:
  "is_text (Str ''Sirius'') \<and> is_text (Str ''Vega'') \<and> is_text Undefined
   \<and> filteredStars ''s'' [sirius, vega] = Inr [sirius, vega]
   \<and> filteredStars ''SIR'' [sirius, vega] = Inr [sirius]
   \<and> filteredStars ''zz'' [sirius, vega] = Inr []"
proof -
  have h: "\<forall>s \<in> set [sirius, vega]. is_text (field s ''proper'') \<and> is_text (field s ''bayer'')
             \<and> is_text (field s ''gl'')"
    by (simp add: fields_sirius fields_vega is_text_def)
  from filteredStars_search[OF h, of "''s''"] filteredStars_search[OF h, of "''SIR''"]
    filteredStars_search[OF h, of "''zz''"]
  show ?thesis by (simp add: spec_match_examples is_text_def)
qed

section \<open>The buffers and the whole pipeline\<close>












section \<open>Selection and picking\<close>

lemma lower_veg: "toLowerCase ''veg'' = ''veg''" by code_simp

lemma filtered_scenario: "filtered [sirius, vega, blank] = [sirius, vega]"
  by (simp add: filtered_def keep_row_def fields_sirius fields_vega fields_blank
      parseFloat_0 parseFloat_1)

lemma filteredStars_veg: "filteredStars ''veg'' [sirius, vega] = Inr [vega]"
  by (simp add: filteredStars_def star_matches_def name_includes_def fields_sirius fields_vega
      lower_sirius lower_vega lower_veg)

lemma step_Complete_initial: "step (Complete [sirius, vega, blank]) initial = loaded"
  by (simp add: step_def initial_def loaded_def filteredStars_def filtered_scenario)

lemma step_Click_loaded: "step (Click [\<lparr>distance = 1, index = 0\<rparr>]) loaded = shown"
  by (simp add: step_def loaded_def shown_def filteredStars_def handleClick_def onStarClick_def)

lemma step_Change_shown: "step (Change ''veg'') shown = shown\<lparr>search := ''veg''\<rparr>"
  by (simp add: step_def shown_def filteredStars_def)

lemma step_keeps_selected:
  assumes "no_pick_no_close e"
  shows "selected (step e st) = selected st"
  using assms
  by (cases e) (simp_all add: step_def handleClick_def split: sum.splits)

lemma run_keeps_selected:
  assumes "list_all no_pick_no_close es"
  shows "selected (run es st) = selected st"
  using assms unfolding run_def
  by (induction es arbitrary: st) (simp_all add: step_keeps_selected)

lemma step_Click_hit:
  assumes "filteredStars (search st) (stars st) = Inr fs" "index first < length fs"
  shows "step (Click (first # rest)) st = st\<lparr>selected := Star (fs ! index first)\<rparr>"
  using assms by (auto simp: step_def handleClick_def onStarClick_def)

text \<open>
  Claim C8. \<open>selected\<close> changes only by a click that meets a point or by the close button:
  the end of the load, a change of the query and a click that meets nothing leave it as it
  is, on one event and along any run of such events. A click that meets a point sets it
  to the row at the reported index of the filtered rows; the close button, pressed while a
  star is shown, sets it to \<open>null\<close>.
\<close>

theorem selected_changes:
  "selected (step (Complete d) st) = selected st
   \<and> selected (step (Change q) st) = selected st
   \<and> selected (step (Click []) st) = selected st
   \<and> (selected (step e st) \<noteq> selected st \<longrightarrow> (\<exists>first rest. e = Click (first # rest)) \<or> e = Close)
   \<and> (list_all no_pick_no_close es \<longrightarrow> selected (run es st) = selected st)
   \<and> (filteredStars (search st) (stars st) = Inr fs \<and> index first < length fs \<longrightarrow>
        selected (step (Click (first # rest)) st) = Star (fs ! index first))
   \<and> (filteredStars (search st) (stars st) = Inr fs \<and> selected st = Star r \<longrightarrow>
        selected (step Close st) = Null)"
proof -
  have a: "selected (step e st) = selected st" if "no_pick_no_close e" for e
    using that by (rule step_keeps_selected)
  have b: "(\<exists>first rest. e = Click (first # rest)) \<or> e = Close"
    if "selected (step e st) \<noteq> selected st"
  proof (rule ccontr)
    assume "\<not> ((\<exists>first rest. e = Click (first # rest)) \<or> e = Close)"
    then have "no_pick_no_close e"
    proof (cases e)
      case (Click xs)
      assume "\<not> ((\<exists>first rest. e = Click (first # rest)) \<or> e = Close)"
      with Click have "xs = []" by (cases xs) auto
      with Click show ?thesis by simp
    qed auto
    with a that show False by blast
  qed
  have c: "selected (step (Click (first # rest)) st) = Star (fs ! index first)"
    if "filteredStars (search st) (stars st) = Inr fs" "index first < length fs"
    using step_Click_hit[OF that] by simp
  have d: "selected (step Close st) = Null"
    if "filteredStars (search st) (stars st) = Inr fs" "selected st = Star r"
    using that by (simp add: step_def)
  from a[of "Complete d"] a[of "Change q"] a[of "Click []"] b c d run_keeps_selected
  show ?thesis by simp
qed

text \<open>
  Claim C9. When the ray caster reports at least one point, \<open>handleClick\<close> reports the index
  of the first entry, which is the closest one when the list is sorted by distance, and
  \<open>selected\<close> becomes the row at that index of the filtered rows. When it reports none,
  nothing is reported and the state stays as it is; the same holds for any click while no
  stars are loaded.
\<close>

theorem pick_closest:
  "handleClick (first # rest) = Some (index first)
   \<and> (sorted_wrt (\<lambda>a b. distance a \<le> distance b) (first # rest) \<longrightarrow>
        (\<forall>y \<in> set (first # rest). distance first \<le> distance y))
   \<and> (filteredStars (search st) (stars st) = Inr fs \<and> index first < length fs \<longrightarrow>
        step (Click (first # rest)) st = st\<lparr>selected := Star (fs ! index first)\<rparr>)
   \<and> handleClick [] = None
   \<and> step (Click []) st = st
   \<and> (stars st = [] \<longrightarrow> step (Click xs) st = st)"
proof -
  have a: "handleClick (first # rest) = Some (index first)" "handleClick [] = None"
    by (simp_all add: handleClick_def)
  have b: "\<forall>y \<in> set (first # rest). distance first \<le> distance y"
    if "sorted_wrt (\<lambda>a b. distance a \<le> distance b) (first # rest)"
    using that by auto
  have c: "step (Click (first # rest)) st = st\<lparr>selected := Star (fs ! index first)\<rparr>"
    if "filteredStars (search st) (stars st) = Inr fs" "index first < length fs"
    using step_Click_hit[OF that] .
  have d: "step (Click []) st = st"
    by (simp add: step_def handleClick_def split: sum.splits)
  have e: "step (Click xs) st = st" if "stars st = []"
    using that by (simp add: step_def filteredStars_def)
  from a b c d e show ?thesis by blast
qed


text \<open>
  Sirius is picked; the query \<open>veg\<close> then filters Sirius out, and \<open>selected\<close> is still
  Sirius, until the close button is pressed.
\<close>

theorem selected_changes_witness:
  "run [Complete [sirius, vega, blank], Click [\<lparr>distance = 1, index = 0\<rparr>]] initial = shown
   \<and> filteredStars ''veg'' (stars shown) = Inr [vega]
   \<and> selected (step (Change ''veg'') shown) = Star sirius
   \<and> selected (run [Change ''veg'', Complete [vega], Click []] shown) = Star sirius
   \<and> selected (step Close (step (Change ''veg'') shown)) = Null"
proof -
  have a: "run [Complete [sirius, vega, blank], Click [\<lparr>distance = 1, index = 0\<rparr>]] initial = shown"
    by (simp add: run_def step_Complete_initial step_Click_loaded)
  have b: "filteredStars ''veg'' (stars shown) = Inr [vega]"
    by (simp add: shown_def filteredStars_veg)
  have c: "selected (step (Change ''veg'') shown) = Star sirius"
    using selected_changes[where st = shown and q = "''veg''"] by (simp add: shown_def)
  have d: "selected (run [Change ''veg'', Complete [vega], Click []] shown) = Star sirius"
    using selected_changes[where st = shown and es = "[Change ''veg'', Complete [vega], Click []]"]
    by (simp add: shown_def)
  have e: "selected (step Close (step (Change ''veg'') shown)) = Null"
    using selected_changes[where st = "step (Change ''veg'') shown" and fs = "[vega]" and r = sirius]
    unfolding step_Change_shown by (simp add: shown_def filteredStars_veg)
  from a b c d e show ?thesis by blast
qed

text \<open>
  Two points on the ray, the nearer one being Vega; a click into the void; a click while loading.
\<close>

theorem pick_closest_witness:
  "sorted_wrt (\<lambda>a b. distance a \<le> distance b)
     [\<lparr>distance = 1, index = 1\<rparr>, \<lparr>distance = 2, index = 0\<rparr>]
   \<and> handleClick [\<lparr>distance = 1, index = 1\<rparr>, \<lparr>distance = 2, index = 0\<rparr>] = Some 1
   \<and> step (Click [\<lparr>distance = 1, index = 1\<rparr>, \<lparr>distance = 2, index = 0\<rparr>]) loaded
       = loaded\<lparr>selected := Star vega\<rparr>
   \<and> step (Click []) shown = shown
   \<and> step (Click [\<lparr>distance = 1, index = 0\<rparr>]) initial = initial"
proof -
  have fs: "filteredStars (search loaded) (stars loaded) = Inr [sirius, vega]"
    by (simp add: loaded_def filteredStars_def)
  from pick_closest[where first = "\<lparr>distance = 1, index = 1\<rparr>"
      and rest = "[\<lparr>distance = 2, index = 0\<rparr>]" and st = loaded and fs = "[sirius, vega]"]
  have "handleClick [\<lparr>distance = 1, index = 1\<rparr>, \<lparr>distance = 2, index = 0\<rparr>] = Some 1"
    and "step (Click [\<lparr>distance = 1, index = 1\<rparr>, \<lparr>distance = 2, index = 0\<rparr>]) loaded
       = loaded\<lparr>selected := Star vega\<rparr>"
    by (simp_all add: fs)
  moreover from pick_closest[where st = shown] have "step (Click []) shown = shown" by blast
  moreover from pick_closest[where st = initial and xs = "[\<lparr>distance = 1, index = 0\<rparr>]"]
  have "step (Click [\<lparr>distance = 1, index = 0\<rparr>]) initial = initial"
    by (simp add: initial_def)
  ultimately show ?thesis by simp
qed

end
